theory Spec2Isabelle
  imports Complex_Main "HOL-Library.Word" "HOL-Library.Multiset" "HOL-Library.AList"
begin

unbundle bit_operations_syntax

section \<open>The device: RS485 frame reader (ReadanalogdataNEW.ino)\<close>

text \<open>
  The sketch keeps two globals, \<^verbatim>\<open>uint8_t buffer[10]\<close> and \<^verbatim>\<open>uint8_t bufferIndex\<close>.
  They are the state of the reader; \<^verbatim>\<open>loop()\<close> consumes the bytes that are available on
  the serial line, one at a time. A decoded frame leaves the reader as a call of
  \<^verbatim>\<open>sendSensorData\<close>; the arguments of that call are the emitted reading.
\<close>

type_synonym u8 = "8 word"
type_synonym u16 = "16 word"

definition USER_ID :: string where
  "USER_ID = ''38''"

definition ESP32_SERIAL_NUMBER :: string where
  "ESP32_SERIAL_NUMBER = ''1''"

definition SENSOR_TYPE :: string where
  "SENSOR_TYPE = ''WaterLevel''"

record rs485_state =
  buffer :: "u8 list"
  bufferIndex :: u8

text \<open>The globals after power-on: C zero-initialises both.\<close>

definition power_on :: rs485_state where
  "power_on = \<lparr>buffer = replicate 10 0, bufferIndex = 0\<rparr>"

text \<open>\<^verbatim>\<open>String getNodeName(char nodeChar)\<close>: a \<^verbatim>\<open>switch\<close> with four cases and a default.\<close>

definition getNodeName :: "char \<Rightarrow> string" where
  "getNodeName nodeChar =
     (if nodeChar = CHR ''A'' then ''Qwave''
      else if nodeChar = CHR ''B'' then ''Factory''
      else if nodeChar = CHR ''C'' then ''Warehouse''
      else if nodeChar = CHR ''D'' then ''Lab''
      else ''Unknown'')"

text \<open>The arguments of one call \<^verbatim>\<open>sendSensorData(userId, esp32Serial, nodeName, sensorType, value)\<close>.\<close>

record send_call =
  arg_userId :: string
  arg_esp32Serial :: string
  arg_nodeName :: string
  arg_sensorType :: string
  arg_value :: u16

text \<open>
  \<^verbatim>\<open>if (bufferIndex < sizeof(buffer)) { buffer[bufferIndex++] = b; }\<close> with
  \<^verbatim>\<open>sizeof(buffer)\<close> = 10.
\<close>

definition store_byte :: "rs485_state \<Rightarrow> u8 \<Rightarrow> rs485_state" where
  "store_byte s b =
     (if unat (bufferIndex s) < 10
      then s\<lparr>buffer := (buffer s)[unat (bufferIndex s) := b],
             bufferIndex := bufferIndex s + 1\<rparr>
      else s)"

text \<open>
  The body of the \<^verbatim>\<open>while\<close> loop for one byte \<open>b\<close>: store it, and when the index has
  reached 5 either decode (start byte \<^verbatim>\<open>0x3A\<close>) or only report the bad start byte; in
  both cases the index goes back to 0. The value is
  \<^verbatim>\<open>((uint16_t)buffer[3] << 8) | buffer[2]\<close>, assigned to a \<^verbatim>\<open>uint16_t\<close>.
\<close>

definition loop_byte :: "rs485_state \<Rightarrow> u8 \<Rightarrow> rs485_state \<times> send_call option" where
  "loop_byte s b =
     (let s1 = store_byte s b in
      if bufferIndex s1 = 5 then
        (if buffer s1 ! 0 = 0x3A then
           (let nodeChar = char_of (unat (buffer s1 ! 1));
                val = push_bit 8 (ucast (buffer s1 ! 3) :: u16) OR ucast (buffer s1 ! 2);
                nodeName = getNodeName nodeChar
            in (s1\<lparr>bufferIndex := 0\<rparr>,
                Some \<lparr>arg_userId = USER_ID, arg_esp32Serial = ESP32_SERIAL_NUMBER,
                      arg_nodeName = nodeName, arg_sensorType = SENSOR_TYPE,
                      arg_value = val\<rparr>))
         else (s1\<lparr>bufferIndex := 0\<rparr>, None))
      else (s1, None))"

text \<open>
  \<^verbatim>\<open>loop()\<close> on the bytes that \<^verbatim>\<open>rs485Serial\<close> has available, in order; the result is
  the state of the globals afterwards and the calls of \<^verbatim>\<open>sendSensorData\<close> made, in order.
\<close>

fun loop :: "rs485_state \<Rightarrow> u8 list \<Rightarrow> rs485_state \<times> send_call list" where
  "loop s [] = (s, [])"
| "loop s (b # bs) =
     (case loop_byte s b of
        (s1, None) \<Rightarrow> loop s1 bs
      | (s1, Some c) \<Rightarrow> (case loop s1 bs of (s2, cs) \<Rightarrow> (s2, c # cs)))"

text \<open>
  The closed table of location codes as the specification words it, for comparison with
  \<^const>\<open>getNodeName\<close>.
\<close>

definition spec_location_table :: "(char \<times> string) list" where
  "spec_location_table =
     [(CHR ''A'', ''Qwave''), (CHR ''B'', ''Factory''),
      (CHR ''C'', ''Warehouse''), (CHR ''D'', ''Lab'')]"

definition spec_location_label :: "char \<Rightarrow> string" where
  "spec_location_label c =
     (case map_of spec_location_table c of Some l \<Rightarrow> l | None \<Rightarrow> ''Unknown'')"


section \<open>The store (lib/db.js)\<close>

text \<open>
  The two tables, with the columns and constraints of the \<^verbatim>\<open>CREATE TABLE\<close> statements of
  the setup guide in \<^verbatim>\<open>db.js\<close>: \<^verbatim>\<open>sensor_data.id\<close> is \<^verbatim>\<open>AUTO_INCREMENT\<close>,
  \<^verbatim>\<open>user_id\<close> is \<^verbatim>\<open>NOT NULL\<close> and references \<^verbatim>\<open>users(id)\<close>, every other column may be
  \<^verbatim>\<open>NULL\<close> (\<open>None\<close>). Of \<^verbatim>\<open>users\<close> only the ids matter here. Times are milliseconds since
  the epoch. Rows are kept in insertion order.
\<close>

record sensor_row =
  col_id :: nat
  col_user_id :: int
  col_esp32_serial :: "string option"
  col_node_name :: "string option"
  col_sensor_type :: "string option"
  col_sensor_value :: "int option"
  col_timestamp :: int

record database =
  users :: "int list"
  sensor_data :: "sensor_row list"
  auto_increment :: nat

text \<open>
  \<^verbatim>\<open>INSERT INTO sensor_data (user_id, esp32_serial, node_name, sensor_type, sensor_value,
  timestamp) VALUES (?, ?, ?, ?, ?, ?)\<close>. A parameter that is \<^verbatim>\<open>undefined\<close> in JavaScript is
  sent as \<^verbatim>\<open>NULL\<close>. The statement fails (\<open>None\<close>) when the constraints on \<^verbatim>\<open>user_id\<close> are
  violated.
\<close>

definition insert_sensor_data ::
  "database \<Rightarrow> int option \<Rightarrow> string option \<Rightarrow> string option \<Rightarrow> string option
     \<Rightarrow> int option \<Rightarrow> int \<Rightarrow> database option" where
  "insert_sensor_data db user_id esp32_serial node_name sensor_type sensor_value ts =
     (case user_id of
        None \<Rightarrow> None
      | Some u \<Rightarrow>
          if u \<in> set (users db)
          then Some (db\<lparr>sensor_data := sensor_data db @
                         [\<lparr>col_id = auto_increment db, col_user_id = u,
                           col_esp32_serial = esp32_serial, col_node_name = node_name,
                           col_sensor_type = sensor_type, col_sensor_value = sensor_value,
                           col_timestamp = ts\<rparr>],
                        auto_increment := auto_increment db + 1\<rparr>)
          else None)"

text \<open>
  \<^verbatim>\<open>deleteOldSensorData\<close>: connect, then
  \<^verbatim>\<open>DELETE FROM sensor_data WHERE timestamp < NOW() - INTERVAL 1 DAY\<close>. When the connection
  fails the error is logged and nothing is deleted. \<open>db_up\<close> says whether
  \<^verbatim>\<open>connectToDatabase()\<close> succeeds, \<open>now\<close> is \<^verbatim>\<open>NOW()\<close>.
\<close>

definition deleteOldSensorData :: "bool \<Rightarrow> int \<Rightarrow> database \<Rightarrow> database" where
  "deleteOldSensorData db_up now db =
     (if \<not> db_up then db
      else db\<lparr>sensor_data :=
                filter (\<lambda>r. \<not> col_timestamp r < now - 24 * 60 * 60 * 1000) (sensor_data db)\<rparr>)"


section \<open>The scheduler (app.js)\<close>

text \<open>
  \<^verbatim>\<open>cron.schedule("0 0 * * *", async () => { await deleteOldSensorData(); })\<close>. The five
  fields of the expression are minute, hour, day of month, month and day of week; a field
  is \<^verbatim>\<open>*\<close>, a number, or \<^verbatim>\<open>*/n\<close>. The job runs in every minute of the wall clock that
  matches all five fields.
\<close>

datatype cron_field = Star | At nat | Step nat

record cron_expr =
  cron_minute :: cron_field
  cron_hour :: cron_field
  cron_day_of_month :: cron_field
  cron_month :: cron_field
  cron_day_of_week :: cron_field

record wall_clock =
  clock_minute :: nat
  clock_hour :: nat
  clock_day_of_month :: nat
  clock_month :: nat
  clock_day_of_week :: nat

fun field_matches :: "cron_field \<Rightarrow> nat \<Rightarrow> bool" where
  "field_matches Star v = True"
| "field_matches (At n) v = (v = n)"
| "field_matches (Step n) v = (v mod n = 0)"

definition cron_matches :: "cron_expr \<Rightarrow> wall_clock \<Rightarrow> bool" where
  "cron_matches e t =
     (field_matches (cron_minute e) (clock_minute t)
      \<and> field_matches (cron_hour e) (clock_hour t)
      \<and> field_matches (cron_day_of_month e) (clock_day_of_month t)
      \<and> field_matches (cron_month e) (clock_month t)
      \<and> field_matches (cron_day_of_week e) (clock_day_of_week t))"

definition sensor_cleanup_schedule :: cron_expr where
  "sensor_cleanup_schedule =
     \<lparr>cron_minute = At 0, cron_hour = At 0, cron_day_of_month = Star,
      cron_month = Star, cron_day_of_week = Star\<rparr>"

text \<open>One minute of the scheduler: the cleanup job runs when its expression matches.\<close>

definition cleanup_tick :: "wall_clock \<Rightarrow> bool \<Rightarrow> int \<Rightarrow> database \<Rightarrow> database" where
  "cleanup_tick t db_up now db =
     (if cron_matches sensor_cleanup_schedule t then deleteOldSensorData db_up now db
      else db)"


section \<open>The HTTP routes (routes/authRoutes.js, middleware/authMiddleware.js)\<close>

text \<open>
  A request carries the \<^verbatim>\<open>Authorization\<close> header, if any, and the JSON body as
  \<^verbatim>\<open>express.json()\<close> has parsed it (a body that is not valid JSON does not reach the
  routes: the parser answers it with 400). The five
  fields that \<^verbatim>\<open>POST /auth/api/sensor-data\<close> destructures from the body are \<open>None\<close> when
  the body lacks them.
\<close>

record sensor_body =
  body_userId :: "int option"
  body_esp32Serial :: "string option"
  body_nodeName :: "string option"
  body_sensorType :: "string option"
  body_value :: "int option"

record request =
  authorization :: "string option"
  body :: sensor_body

datatype response = Message nat string | Rows nat "sensor_row list"

fun status :: "response \<Rightarrow> nat" where
  "status (Message n m) = n"
| "status (Rows n rs) = n"

fun rows_of :: "response \<Rightarrow> sensor_row list" where
  "rows_of (Message n m) = []"
| "rows_of (Rows n rs) = rs"

text \<open>
  \<^verbatim>\<open>router.post("/api/sensor-data", async (req, res) => ...)\<close>: no middleware, no check of
  the fields; connect, insert with \<^verbatim>\<open>new Date()\<close> as timestamp, answer 201; any exception
  is answered with 500. The result is the response and the store afterwards.
\<close>

definition post_sensor_data :: "bool \<Rightarrow> int \<Rightarrow> database \<Rightarrow> request \<Rightarrow> response \<times> database" where
  "post_sensor_data db_up now db req =
     (if \<not> db_up then (Message 500 ''Error saving sensor data'', db)
      else
        (case insert_sensor_data db (body_userId (body req)) (body_esp32Serial (body req))
                (body_nodeName (body req)) (body_sensorType (body req))
                (body_value (body req)) now of
           Some db' \<Rightarrow> (Message 201 ''Sensor data saved successfully'', db')
         | None \<Rightarrow> (Message 500 ''Error saving sensor data'', db)))"

text \<open>JavaScript's \<^verbatim>\<open>s.split(" ")\<close>.\<close>

fun split_space :: "string \<Rightarrow> string list" where
  "split_space [] = [[]]"
| "split_space (c # cs) =
     (if c = CHR '' '' then [] # split_space cs
      else (case split_space cs of
              [] \<Rightarrow> [[c]]
            | w # ws \<Rightarrow> (c # w) # ws))"

text \<open>
  The decoded token, \<^verbatim>\<open>req.user\<close>. \<^verbatim>\<open>jwt.verify(token, process.env.JWT_KEY)\<close> belongs to
  the \<^verbatim>\<open>jsonwebtoken\<close> package: it is a parameter \<open>jwt_verify\<close> of the model, \<open>None\<close> where
  it throws.
\<close>

record jwt_payload =
  jwt_id :: int
  jwt_email :: string

text \<open>
  \<^verbatim>\<open>authenticateToken\<close>: \<^verbatim>\<open>token = authHeader && authHeader.split(" ")[1]\<close>; a missing or
  empty token is answered with 401, a token that does not verify with 403; otherwise the
  route handler runs with \<^verbatim>\<open>req.user\<close> set.
\<close>

definition authenticateToken ::
  "(string \<Rightarrow> jwt_payload option) \<Rightarrow> request \<Rightarrow> response + jwt_payload" where
  "authenticateToken jwt_verify req =
     (let token =
        (case authorization req of
           None \<Rightarrow> None
         | Some authHeader \<Rightarrow>
             if authHeader = [] then None
             else if length (split_space authHeader) > 1
                  then Some (split_space authHeader ! 1) else None)
      in case token of
           None \<Rightarrow> Inl (Message 401 ''Unauthorized: No token provided'')
         | Some t \<Rightarrow>
             if t = [] then Inl (Message 401 ''Unauthorized: No token provided'')
             else (case jwt_verify t of
                     None \<Rightarrow> Inl (Message 403 ''Forbidden: Invalid token'')
                   | Some decoded \<Rightarrow> Inr decoded))"

text \<open>
  \<^verbatim>\<open>router.get("/sensor-data", authenticateToken, ...)\<close>:
  \<^verbatim>\<open>SELECT * FROM sensor_data WHERE user_id = ? ORDER BY timestamp DESC\<close> with
  \<^verbatim>\<open>req.user.id\<close>. SQL leaves the order of rows with equal timestamps open; the model
  keeps them in insertion order.
\<close>

definition get_sensor_data ::
  "(string \<Rightarrow> jwt_payload option) \<Rightarrow> bool \<Rightarrow> database \<Rightarrow> request \<Rightarrow> response" where
  "get_sensor_data jwt_verify db_up db req =
     (case authenticateToken jwt_verify req of
        Inl refusal \<Rightarrow> refusal
      | Inr user \<Rightarrow>
          if \<not> db_up then Message 500 ''Error fetching sensor data''
          else Rows 200 (sort_key (\<lambda>r. - col_timestamp r)
                           (filter (\<lambda>r. col_user_id r = jwt_id user) (sensor_data db))))"


section \<open>The dashboard (Dashboard component)\<close>

subsection \<open>The values the dashboard computes with\<close>

text \<open>
  The dashboard works on the rows of \<^verbatim>\<open>GET /auth/sensor-data\<close> as JSON. The column
  \<^verbatim>\<open>sensor_value\<close> is \<^verbatim>\<open>DECIMAL(10,2)\<close> and the connection of \<^verbatim>\<open>db.js\<close> is created
  without \<^verbatim>\<open>decimalNumbers\<close>, so the driver hands the column over as a string with two
  decimals (\<^verbatim>\<open>"1024.00"\<close>), and \<^verbatim>\<open>NULL\<close> as \<^verbatim>\<open>null\<close>. A reading holds the column in
  hundredths (\<open>None\<close> for \<^verbatim>\<open>NULL\<close>); \<open>item_sensor_value\<close> is what \<^verbatim>\<open>item.sensor_value\<close>
  evaluates to. \<^verbatim>\<open>node_name\<close> is a string or \<^verbatim>\<open>null\<close>; the timestamp is
  \<^verbatim>\<open>new Date(data.timestamp).getTime()\<close>, in milliseconds.
\<close>

record reading =
  timestamp :: int
  node_name :: "string option"
  sensor_value :: "int option"

definition digit_char :: "nat \<Rightarrow> char" where
  "digit_char d = ''0123456789'' ! d"

function digits_of :: "nat \<Rightarrow> string" where
  "digits_of n =
     (if n < 10 then [digit_char n]
      else digits_of (n div 10) @ [digit_char (n mod 10)])"
  by pat_completeness auto
termination
  by (relation "measure id") auto

definition decimal_string :: "int \<Rightarrow> string" where
  "decimal_string n =
     (if n < 0 then ''-'' else []) @ digits_of (nat \<bar>n\<bar> div 100) @ ''.''
       @ [digit_char (nat \<bar>n\<bar> mod 100 div 10), digit_char (nat \<bar>n\<bar> mod 10)]"

definition item_sensor_value :: "reading \<Rightarrow> string option" where
  "item_sensor_value item = map_option decimal_string (sensor_value item)"

text \<open>
  JavaScript numbers are IEEE 754 doubles. A finite double is written by its exact value
  (the sign of zero is not kept). \<open>round_double\<close> is the Number value for a rational:
  round to nearest, ties to even, with 53 bits of precision, subnormals below
  \<open>2\<^sup>-\<^sup>1\<^sup>0\<^sup>2\<^sup>2\<close> and infinity from \<open>2\<^sup>1\<^sup>0\<^sup>2\<^sup>4\<close> on.
\<close>

datatype js_number = NaN | NegInfinity | Finite rat | PosInfinity

datatype js_value = JNull | JString string | JNumber js_number

fun js_value_of :: "string option \<Rightarrow> js_value" where
  "js_value_of None = JNull"
| "js_value_of (Some s) = JString s"

function bit_length :: "nat \<Rightarrow> nat" where
  "bit_length n = (if n = 0 then 0 else Suc (bit_length (n div 2)))"
  by pat_completeness auto
termination
  by (relation "measure id") auto

definition pow2 :: "int \<Rightarrow> rat" where
  "pow2 e = (if 0 \<le> e then 2 ^ nat e else 1 / 2 ^ nat (- e))"

text \<open>For \<open>a > 0\<close>: the exponent \<open>e\<close> with \<open>2\<^sup>e \<le> a < 2\<^sup>e\<^sup>+\<^sup>1\<close>.\<close>

definition floor_log2 :: "rat \<Rightarrow> int" where
  "floor_log2 a =
     (let k = int (bit_length (nat (fst (quotient_of a))))
              - int (bit_length (nat (snd (quotient_of a))))
      in if pow2 k \<le> a then k else k - 1)"

definition round_half_even :: "rat \<Rightarrow> int" where
  "round_half_even x =
     (let f = \<lfloor>x\<rfloor>; r = x - of_int f
      in if r < 1 / 2 then f
         else if 1 / 2 < r then f + 1
         else if even f then f else f + 1)"

definition round_double :: "rat \<Rightarrow> js_number" where
  "round_double q =
     (if q = 0 then Finite 0
      else
        (let a = \<bar>q\<bar>;
             e = max (floor_log2 a) (- 1022);
             m = round_half_even (a / pow2 (e - 52))
         in if 1023 < e \<or> (e = 1023 \<and> m = 2 ^ 53)
            then (if q < 0 then NegInfinity else PosInfinity)
            else Finite ((if q < 0 then - 1 else 1) * of_int m * pow2 (e - 52))))"

text \<open>
  \<^verbatim>\<open>ToNumber\<close> of a string, for the strings that occur here: an optional sign, digits and
  an optional fraction; the empty string is 0, everything else is \<^verbatim>\<open>NaN\<close>. White space,
  exponents, \<^verbatim>\<open>Infinity\<close> and the prefixes \<^verbatim>\<open>0x\<close>, \<^verbatim>\<open>0o\<close>, \<^verbatim>\<open>0b\<close> are not covered:
  the strings are built from \<^verbatim>\<open>"0"\<close>, \<^verbatim>\<open>"null"\<close> and the strings of \<open>decimal_string\<close>.
  The value is rounded exactly; the standard lets an implementation round a literal of
  more than 20 significant digits after the 20th.
\<close>

definition is_digit :: "char \<Rightarrow> bool" where
  "is_digit c = (c \<in> set ''0123456789'')"

definition digit_value :: "char \<Rightarrow> nat" where
  "digit_value c = length (takeWhile (\<lambda>d. d \<noteq> c) ''0123456789'')"

definition digits_value :: "string \<Rightarrow> nat" where
  "digits_value ds = foldl (\<lambda>v c. 10 * v + digit_value c) 0 ds"

definition StringToNumber :: "string \<Rightarrow> js_number" where
  "StringToNumber s =
     (if s = [] then Finite 0
      else
        (let negative = (hd s = CHR ''-'');
             unsigned = (if hd s = CHR ''-'' \<or> hd s = CHR ''+'' then tl s else s);
             ip = takeWhile is_digit unsigned;
             rest = dropWhile is_digit unsigned;
             fp = (case rest of [] \<Rightarrow> [] | c # cs \<Rightarrow> cs);
             well_formed =
               (case rest of
                  [] \<Rightarrow> ip \<noteq> []
                | c # cs \<Rightarrow> c = CHR ''.'' \<and> list_all is_digit cs \<and> ip @ cs \<noteq> [])
         in if well_formed
            then round_double ((if negative then - 1 else 1)
                               * of_nat (digits_value (ip @ fp)) / 10 ^ length fp)
            else NaN))"

fun ToNumber :: "js_value \<Rightarrow> js_number" where
  "ToNumber JNull = Finite 0"
| "ToNumber (JString s) = StringToNumber s"
| "ToNumber (JNumber x) = x"

text \<open>The order of the numbers that are not \<^verbatim>\<open>NaN\<close>, and \<^verbatim>\<open>Math.min\<close>, \<^verbatim>\<open>Math.max\<close>.\<close>

fun js_le :: "js_number \<Rightarrow> js_number \<Rightarrow> bool" where
  "js_le NaN y = False"
| "js_le x NaN = False"
| "js_le NegInfinity y = True"
| "js_le x PosInfinity = True"
| "js_le (Finite x) (Finite y) = (x \<le> y)"
| "js_le (Finite x) NegInfinity = False"
| "js_le PosInfinity y = False"

definition Math_min :: "js_number \<Rightarrow> js_number \<Rightarrow> js_number" where
  "Math_min a b = (if a = NaN \<or> b = NaN then NaN else if js_le a b then a else b)"

definition Math_max :: "js_number \<Rightarrow> js_number \<Rightarrow> js_number" where
  "Math_max a b = (if a = NaN \<or> b = NaN then NaN else if js_le a b then b else a)"

text \<open>The quotient of a number by a count.\<close>

fun js_divide :: "js_number \<Rightarrow> nat \<Rightarrow> js_number" where
  "js_divide NaN c = NaN"
| "js_divide NegInfinity c = NegInfinity"
| "js_divide PosInfinity c = PosInfinity"
| "js_divide (Finite v) c =
     (if c = 0 then (if v = 0 then NaN else if v < 0 then NegInfinity else PosInfinity)
      else round_double (v / of_nat c))"

text \<open>
  \<^verbatim>\<open>total\<close> starts as the number 0 and \<^verbatim>\<open>total += item.sensor_value\<close> adds a string or
  \<^verbatim>\<open>null\<close>: \<^verbatim>\<open>0 + null\<close> is 0, a number and a string are concatenated
  (\<^verbatim>\<open>0 + "10.00"\<close> is \<^verbatim>\<open>"010.00"\<close>), and a string stays a string (\<^verbatim>\<open>"x" + null\<close> is
  \<^verbatim>\<open>"xnull"\<close>). So \<^verbatim>\<open>total\<close> is the number 0 or a string.
\<close>

datatype total = Zero | Text string

fun plus_value :: "total \<Rightarrow> string option \<Rightarrow> total" where
  "plus_value Zero None = Zero"
| "plus_value Zero (Some s) = Text (''0'' @ s)"
| "plus_value (Text t) None = Text (t @ ''null'')"
| "plus_value (Text t) (Some s) = Text (t @ s)"

fun total_over_count :: "total \<Rightarrow> nat \<Rightarrow> js_number" where
  "total_over_count Zero c = js_divide (Finite 0) c"
| "total_over_count (Text t) c = js_divide (StringToNumber t) c"

subsection \<open>The calendar date in Asia/Bangkok\<close>

text \<open>
  \<^verbatim>\<open>new Date(t).toLocaleDateString("en-US", {timeZone: "Asia/Bangkok"})\<close>: the date
  \<^verbatim>\<open>M/D/YYYY\<close> of the instant \<open>t\<close> in the zone, which is UTC+7 without daylight saving since
  1 April 1920 and UTC+6:42:04 before. The day number is turned into year, month and day
  of the Gregorian calendar; years before the year 1 are not covered.
\<close>

definition civil_from_days :: "int \<Rightarrow> int \<times> int \<times> int" where
  "civil_from_days z =
     (let z2 = z + 719468;
          era = z2 div 146097;
          doe = z2 - era * 146097;
          yoe = (doe - doe div 1460 + doe div 36524 - doe div 146096) div 365;
          y = yoe + era * 400;
          doy = doe - (365 * yoe + yoe div 4 - yoe div 100);
          mp = (5 * doy + 2) div 153;
          d = doy - (153 * mp + 2) div 5 + 1;
          m = (if mp < 10 then mp + 3 else mp - 9)
      in (if m \<le> 2 then y + 1 else y, m, d))"

definition toLocaleDateString :: "int \<Rightarrow> string" where
  "toLocaleDateString t =
     (let offset = (if t < - 1570084924000 then 24124000 else 25200000);
          (y, m, d) = civil_from_days ((t + offset) div 86400000)
      in digits_of (nat m) @ ''/'' @ digits_of (nat d) @ ''/'' @ digits_of (nat y))"

subsection \<open>The four operations\<close>

text \<open>
  \<^verbatim>\<open>filteredData\<close>: filter by node and by \<^verbatim>\<open>dataTime >= currentTime - timeRange * 60 * 1000\<close>,
  then sort with the comparator \<^verbatim>\<open>new Date(b.timestamp) - new Date(a.timestamp)\<close>
  (\<^verbatim>\<open>Array.prototype.sort\<close> is stable). The callback of \<^verbatim>\<open>filter\<close> runs
  \<^verbatim>\<open>const currentTime = Date.now()\<close> for every element: \<open>Date_now i\<close> is the value that call
  returns for the element at index \<open>i\<close>. \<^verbatim>\<open>===\<close> on strings and \<^verbatim>\<open>null\<close> is equality.
\<close>

definition filteredData ::
  "(nat \<Rightarrow> int) \<Rightarrow> string option \<Rightarrow> int \<Rightarrow> reading list \<Rightarrow> reading list" where
  "filteredData Date_now selectedNode timeRange sensorData =
     sort_key (\<lambda>a. - timestamp a)
       (map snd
          (filter (\<lambda>(i, data). node_name data = selectedNode
                        \<and> timestamp data \<ge> Date_now i - timeRange * 60 * 1000)
             (enumerate 0 sensorData)))"

text \<open>
  The effect on \<^verbatim>\<open>filteredData\<close>: the value passed to \<^verbatim>\<open>setLatestValue\<close>, which is
  \<^verbatim>\<open>latestData.sensor_value\<close> as it is, or the number 0.
\<close>

definition latestValue :: "reading list \<Rightarrow> js_value" where
  "latestValue fd =
     (if length fd > 0 then js_value_of (item_sensor_value (fd ! 0)) else JNumber (Finite 0))"

text \<open>
  \<^verbatim>\<open>calculateDailyAverage\<close> and \<^verbatim>\<open>calculateDailyMinMax\<close>. \<^verbatim>\<open>groupedData\<close> is an object
  used as a dictionary: an association list in insertion order, which is the order of
  \<^verbatim>\<open>Object.keys\<close> for keys that are date strings. A new key is appended, an existing
  entry is changed in place. The keys of the list are distinct, so
  \<^verbatim>\<open>Object.keys(groupedData).map(date => ... groupedData[date] ...)\<close> visits the entries
  in order. \<^verbatim>\<open>count\<close> is a natural number.
\<close>

record daily_average =
  avg_date :: string
  average :: js_number

record daily_minmax =
  mm_date :: string
  mm_min :: js_value
  mm_max :: js_value

definition average_step ::
  "(string \<times> total \<times> nat) list \<Rightarrow> reading \<Rightarrow> (string \<times> total \<times> nat) list" where
  "average_step groupedData item =
     (let date = toLocaleDateString (timestamp item);
          groupedData1 =
            (if map_of groupedData date = None then groupedData @ [(date, (Zero, 0))]
             else groupedData)
      in AList.map_entry date
           (\<lambda>(total, count). (plus_value total (item_sensor_value item), count + 1))
           groupedData1)"

definition calculateDailyAverage :: "string option \<Rightarrow> reading list \<Rightarrow> daily_average list" where
  "calculateDailyAverage selectedNode data =
     (let filteredData = filter (\<lambda>item. node_name item = selectedNode) data;
          groupedData = foldl average_step [] filteredData
      in map (\<lambda>(date, total, count).
                \<lparr>avg_date = date, average = total_over_count total count\<rparr>) groupedData)"

definition minmax_step ::
  "(string \<times> js_value \<times> js_value) list \<Rightarrow> reading
     \<Rightarrow> (string \<times> js_value \<times> js_value) list" where
  "minmax_step groupedData item =
     (let date = toLocaleDateString (timestamp item);
          v = js_value_of (item_sensor_value item)
      in if map_of groupedData date = None
         then groupedData @ [(date, (v, v))]
         else AList.map_entry date
                (\<lambda>(mn, mx). (JNumber (Math_min (ToNumber mn) (ToNumber v)),
                             JNumber (Math_max (ToNumber mx) (ToNumber v))))
                groupedData)"

definition calculateDailyMinMax :: "string option \<Rightarrow> reading list \<Rightarrow> daily_minmax list" where
  "calculateDailyMinMax selectedNode data =
     (let filteredData = filter (\<lambda>item. node_name item = selectedNode) data;
          groupedData = foldl minmax_step [] filteredData
      in map (\<lambda>(date, mn, mx). \<lparr>mm_date = date, mm_min = mn, mm_max = mx\<rparr>) groupedData)"

text \<open>
  The windowed filter as the specification words it, for one value \<open>now\<close> of the clock:
  the readings of the location that are at most \<open>N\<close> minutes old.
\<close>

definition spec_windowed_filter ::
  "int \<Rightarrow> string option \<Rightarrow> int \<Rightarrow> reading list \<Rightarrow> reading list" where
  "spec_windowed_filter now selectedNode N data =
     filter (\<lambda>r. node_name r = selectedNode \<and> now - N * 60 * 1000 \<le> timestamp r) data"


section \<open>Properties of the frame reader\<close>

lemma unat_u8_less: "unat (w :: u8) < 256"
  using unsigned_less [of w, where 'a = nat] by simp

lemma unat_ucast_u8_u16: "unat (ucast (w :: u8) :: u16) = unat w"
  using unat_u8_less [of w] by (simp add: unsigned_ucast_eq take_bit_nat_eq_self_iff)

lemma high_low_disjoint: "push_bit 8 (ucast (hi :: u8) :: u16) AND ucast (lo :: u8) = 0"
  by (rule bit_eqI) (auto simp: bit_simps dest: bit_imp_le_length)

lemma unat_high_byte: "unat (push_bit 8 (ucast (hi :: u8) :: u16)) = unat hi * 256"
proof -
  have "unat (push_bit 8 (ucast hi :: u16)) = unat ((ucast hi :: u16) * 256)"
    by (simp add: push_bit_eq_mult)
  also have "\<dots> = unat (ucast hi :: u16) * unat (256 :: u16)"
    using unat_u8_less [of hi]
    by (subst unat_mult_lem [THEN iffD1]) (simp_all add: unat_ucast_u8_u16)
  finally show ?thesis
    by (simp add: unat_ucast_u8_u16)
qed

lemma unat_little_endian:
  "unat (push_bit 8 (ucast (hi :: u8) :: u16) OR ucast (lo :: u8)) = unat hi * 256 + unat lo"
proof -
  have "push_bit 8 (ucast hi :: u16) OR ucast lo = push_bit 8 (ucast hi :: u16) + ucast lo"
    by (simp add: disjunctive_add_eq_or high_low_disjoint)
  moreover have "unat (push_bit 8 (ucast hi :: u16) + (ucast lo :: u16))
      = unat (push_bit 8 (ucast hi :: u16)) + unat (ucast lo :: u16)"
    using unat_u8_less [of hi] unat_u8_less [of lo]
    by (subst unat_add_lem [THEN iffD1]) (simp_all add: unat_high_byte unat_ucast_u8_u16)
  ultimately show ?thesis
    by (simp add: unat_high_byte unat_ucast_u8_u16)
qed

lemma length_five: "length (frame :: 'a list) = 5 \<Longrightarrow> \<exists>a b c d e. frame = [a, b, c, d, e]"
  by (auto simp: length_Suc_conv eval_nat_numeral)

lemma getNodeName_table: "getNodeName c = spec_location_label c"
  by (simp add: getNodeName_def spec_location_label_def spec_location_table_def)

text \<open>
  Five bytes fed to a reader whose index is 0: the first four are only stored, the fifth
  closes the window. The window overwrites cells 0 to 4 of the buffer, the index is 0
  again, and one call is made exactly when the first byte is the start byte.
\<close>

lemma loop_window:
  assumes "length (buffer s) = 10" and "bufferIndex s = 0"
  shows "loop s [a, b, c, d, e] =
     (s\<lparr>buffer := (buffer s)[0 := a, 1 := b, 2 := c, 3 := d, 4 := e], bufferIndex := 0\<rparr>,
      if a = 0x3A
      then [\<lparr>arg_userId = USER_ID, arg_esp32Serial = ESP32_SERIAL_NUMBER,
             arg_nodeName = getNodeName (char_of (unat b)), arg_sensorType = SENSOR_TYPE,
             arg_value = push_bit 8 (ucast d :: u16) OR ucast c\<rparr>]
      else [])"
  using assms by (simp add: loop_byte_def store_byte_def Let_def)


text \<open>
  C1. A reader at index 0 that is fed a 5-byte frame whose byte 0 is the start byte
  \<^verbatim>\<open>0x3A\<close> makes exactly one call of \<^verbatim>\<open>sendSensorData\<close>. Its value is
  \<open>frame[3] * 256 + frame[2]\<close> (the two bytes read little-endian), so it lies between 0
  and 65535; its location label is the image of byte 1 under the table
  \<open>'A' \<mapsto> Qwave, 'B' \<mapsto> Factory, 'C' \<mapsto> Warehouse, 'D' \<mapsto> Lab\<close>, and \<open>Unknown\<close> for every
  other code. The index is 0 after the frame.
\<close>

theorem decode_valid_frame:
  assumes "length (buffer s) = 10" and "bufferIndex s = 0"
    and "length frame = 5" and "frame ! 0 = 0x3A"
  shows "\<exists>r. snd (loop s frame) = [r]
      \<and> unat (arg_value r) = unat (frame ! 3) * 256 + unat (frame ! 2)
      \<and> unat (arg_value r) \<le> 65535
      \<and> arg_nodeName r = spec_location_label (char_of (unat (frame ! 1)))
      \<and> arg_nodeName r =
          (if frame ! 1 = 0x41 then ''Qwave''
           else if frame ! 1 = 0x42 then ''Factory''
           else if frame ! 1 = 0x43 then ''Warehouse''
           else if frame ! 1 = 0x44 then ''Lab''
           else ''Unknown'')
      \<and> bufferIndex (fst (loop s frame)) = 0"
proof -
  from assms(3) obtain a b c d e where frame: "frame = [a, b, c, d, e]"
    using length_five by blast
  with assms(4) have a: "a = 0x3A"
    by simp
  let ?r = "\<lparr>arg_userId = USER_ID, arg_esp32Serial = ESP32_SERIAL_NUMBER,
             arg_nodeName = getNodeName (char_of (unat b)), arg_sensorType = SENSOR_TYPE,
             arg_value = push_bit 8 (ucast d :: u16) OR ucast c\<rparr>"
  have out: "snd (loop s frame) = [?r]" and idx: "bufferIndex (fst (loop s frame)) = 0"
    using loop_window [OF assms(1,2), of a b c d e] by (simp_all add: frame a)
  have val: "unat (arg_value ?r) = unat d * 256 + unat c"
    by (simp add: unat_little_endian)
  have bound: "unat (arg_value ?r) \<le> 65535"
    using unat_u8_less [of d] unat_u8_less [of c] by (simp add: unat_little_endian)
  have byte_char: "char_of (unat b) = char_of (unat k) \<longleftrightarrow> b = k" for k :: u8
    using unat_u8_less [of b] unat_u8_less [of k]
    by (simp add: char_of_eq_iff word_unat_eq_iff take_bit_nat_eq_self)
  have "CHR ''A'' = char_of (unat (0x41 :: u8))" "CHR ''B'' = char_of (unat (0x42 :: u8))"
       "CHR ''C'' = char_of (unat (0x43 :: u8))" "CHR ''D'' = char_of (unat (0x44 :: u8))"
    by (simp_all add: char_of_def bit_Suc_0_iff)
  then have label: "getNodeName (char_of (unat b)) =
      (if b = 0x41 then ''Qwave'' else if b = 0x42 then ''Factory''
       else if b = 0x43 then ''Warehouse'' else if b = 0x44 then ''Lab'' else ''Unknown'')"
    unfolding getNodeName_def by (simp only: byte_char)
  show ?thesis
    using out idx val bound label by (simp add: frame getNodeName_table [symmetric])
qed

theorem decode_valid_frame_witness:
  "length (buffer power_on) = 10 \<and> bufferIndex power_on = 0
   \<and> length [0x3A, 0x41, 0x00, 0x04, 0x0A :: u8] = 5
   \<and> [0x3A, 0x41, 0x00, 0x04, 0x0A :: u8] ! 0 = 0x3A
   \<and> (\<exists>r. snd (loop power_on [0x3A, 0x41, 0x00, 0x04, 0x0A]) = [r]
        \<and> unat (arg_value r) = 1024 \<and> arg_nodeName r = ''Qwave'')"
proof -
  have h: "length (buffer power_on) = 10" "bufferIndex power_on = 0"
    "length [0x3A, 0x41, 0x00, 0x04, 0x0A :: u8] = 5"
    "[0x3A, 0x41, 0x00, 0x04, 0x0A :: u8] ! 0 = 0x3A"
    by (simp_all add: power_on_def)
  from decode_valid_frame [OF h] show ?thesis
    using h by auto
qed

text \<open>
  C2. A reader at index 0 that is fed a 5-byte window whose byte 0 is not \<^verbatim>\<open>0x3A\<close>
  makes no call at all (also when the start byte occurs later inside the window: there is
  no resynchronisation), and its index is 0 afterwards. The next 5 bytes are then read as
  a fresh frame: the calls they cause and the state they leave are those of a reader that
  never saw the discarded window.
\<close>

theorem bad_start_byte_discards_window:
  assumes "length (buffer s) = 10" and "bufferIndex s = 0"
    and "length window = 5" and "window ! 0 \<noteq> 0x3A"
  shows "snd (loop s window) = []
      \<and> bufferIndex (fst (loop s window)) = 0
      \<and> (\<forall>nxt. length nxt = 5 \<longrightarrow> loop (fst (loop s window)) nxt = loop s nxt)"
proof -
  from assms(3) obtain a b c d e where window: "window = [a, b, c, d, e]"
    using length_five by blast
  with assms(4) have a: "a \<noteq> 0x3A"
    by simp
  let ?s1 = "s\<lparr>buffer := (buffer s)[0 := a, 1 := b, 2 := c, 3 := d, 4 := e], bufferIndex := 0\<rparr>"
  have run: "loop s window = (?s1, [])"
    using loop_window [OF assms(1,2), of a b c d e] a by (simp add: window)
  have fresh: "loop ?s1 nxt = loop s nxt" if "length nxt = 5" for nxt
  proof -
    from that obtain a' b' c' d' e' where nxt: "nxt = [a', b', c', d', e']"
      using length_five by blast
    have "length (buffer ?s1) = 10" "bufferIndex ?s1 = 0"
      using assms(1) by simp_all
    then have "loop ?s1 nxt =
        (?s1\<lparr>buffer := (buffer ?s1)[0 := a', 1 := b', 2 := c', 3 := d', 4 := e'],
              bufferIndex := 0\<rparr>,
         snd (loop s nxt))"
      using loop_window [of ?s1 a' b' c' d' e'] loop_window [OF assms(1,2), of a' b' c' d' e']
      by (simp add: nxt)
    moreover have "(buffer ?s1)[0 := a', 1 := b', 2 := c', 3 := d', 4 := e']
        = (buffer s)[0 := a', 1 := b', 2 := c', 3 := d', 4 := e']"
      using assms(1) by (simp add: list_eq_iff_nth_eq nth_list_update)
    ultimately show ?thesis
      using loop_window [OF assms(1,2), of a' b' c' d' e'] by (simp add: nxt)
  qed
  show ?thesis
    using run fresh by simp
qed

theorem bad_start_byte_discards_window_witness:
  "length (buffer power_on) = 10 \<and> bufferIndex power_on = 0
   \<and> length [0x00, 0x3A, 0x41, 0x00, 0x04 :: u8] = 5
   \<and> [0x00, 0x3A, 0x41, 0x00, 0x04 :: u8] ! 0 \<noteq> 0x3A
   \<and> snd (loop power_on [0x00, 0x3A, 0x41, 0x00, 0x04]) = []
   \<and> length [0x3A, 0x44, 0xFF, 0xFF, 0x0A :: u8] = 5
   \<and> loop (fst (loop power_on [0x00, 0x3A, 0x41, 0x00, 0x04])) [0x3A, 0x44, 0xFF, 0xFF, 0x0A]
       = loop power_on [0x3A, 0x44, 0xFF, 0xFF, 0x0A]"
proof -
  have h: "length (buffer power_on) = 10" "bufferIndex power_on = 0"
    "length [0x00, 0x3A, 0x41, 0x00, 0x04 :: u8] = 5"
    "[0x00, 0x3A, 0x41, 0x00, 0x04 :: u8] ! 0 \<noteq> 0x3A"
    by (simp_all add: power_on_def)
  have n: "length [0x3A, 0x44, 0xFF, 0xFF, 0x0A :: u8] = 5"
    by simp
  from bad_start_byte_discards_window [OF h] n show ?thesis
    using h by blast
qed


section \<open>Properties of the dashboard, the purge and the routes\<close>

subsection \<open>The windowed filter and the latest value\<close>

lemma filter_enumerate_nth:
  "map snd (filter P (enumerate 0 xs))
     = map ((!) xs) (filter (\<lambda>i. P (i, xs ! i)) [0..<length xs])"
proof (induction xs rule: rev_induct)
  case Nil
  then show ?case by simp
next
  case (snoc x xs)
  have "map ((!) (xs @ [x])) (filter (\<lambda>i. P (i, (xs @ [x]) ! i)) [0..<length xs])
      = map ((!) xs) (filter (\<lambda>i. P (i, xs ! i)) [0..<length xs])"
  proof -
    have "filter (\<lambda>i. P (i, (xs @ [x]) ! i)) [0..<length xs]
        = filter (\<lambda>i. P (i, xs ! i)) [0..<length xs]"
      by (rule filter_cong) (simp_all add: nth_append)
    moreover have "map ((!) (xs @ [x])) (filter (\<lambda>i. P (i, xs ! i)) [0..<length xs])
        = map ((!) xs) (filter (\<lambda>i. P (i, xs ! i)) [0..<length xs])"
      by (rule map_cong) (auto simp: nth_append)
    ultimately show ?thesis by simp
  qed
  with snoc.IH show ?case
    by (simp add: enumerate_append_eq)
qed

lemma filter_enumerate_frozen:
  "map snd (filter (\<lambda>(i, r). Q r) (enumerate n xs)) = filter Q xs"
  by (induction xs arbitrary: n) simp_all

text \<open>
  C4, as the code has it. The filter reads the clock once for every reading. For every
  list of readings, selected location and window of \<open>N\<close> minutes, \<^const>\<open>filteredData\<close>
  holds exactly the readings of that location whose timestamp is at least the clock value
  read at their own test minus \<open>N\<close> minutes, each as often as it passes, ordered by
  timestamp, most recent first. When every read of the clock returns the same value
  \<open>now\<close>, these are exactly the readings of the location that are at most \<open>N\<close> minutes
  older than \<open>now\<close>.
\<close>

theorem windowed_filter_per_reading_clock:
  "mset (filteredData clock node N data)
     = mset (map ((!) data)
         (filter (\<lambda>i. node_name (data ! i) = node
                      \<and> clock i - N * 60 * 1000 \<le> timestamp (data ! i)) [0..<length data]))
   \<and> sorted_wrt (\<lambda>a b. timestamp a \<ge> timestamp b) (filteredData clock node N data)
   \<and> ((\<forall>i < length data. clock i = now) \<longrightarrow>
         mset (filteredData clock node N data) = mset (spec_windowed_filter now node N data)
         \<and> set (filteredData clock node N data)
           = {r \<in> set data. node_name r = node \<and> now - N * 60 * 1000 \<le> timestamp r})"
proof -
  let ?kept = "\<lambda>(i, r). node_name r = node \<and> timestamp r \<ge> clock i - N * 60 * 1000"
  have picked: "mset (filteredData clock node N data)
      = mset (map ((!) data)
          (filter (\<lambda>i. node_name (data ! i) = node
                       \<and> clock i - N * 60 * 1000 \<le> timestamp (data ! i)) [0..<length data]))"
    unfolding filteredData_def by (simp add: filter_enumerate_nth)
  have "sorted (map (\<lambda>a. - timestamp a) (filteredData clock node N data))"
    unfolding filteredData_def by (rule sorted_sort_key)
  then have ordered: "sorted_wrt (\<lambda>a b. timestamp a \<ge> timestamp b) (filteredData clock node N data)"
    by (simp add: sorted_map)
  have frozen: "mset (filteredData clock node N data) = mset (spec_windowed_filter now node N data)"
    if "\<forall>i < length data. clock i = now"
  proof -
    have "filter ?kept (enumerate 0 data)
        = filter (\<lambda>(i, r). node_name r = node \<and> now - N * 60 * 1000 \<le> timestamp r)
            (enumerate 0 data)"
      using that by (intro filter_cong) (auto simp: in_set_enumerate_eq)
    then show ?thesis
      by (simp add: filteredData_def spec_windowed_filter_def filter_enumerate_frozen)
  qed
  have frozen_set: "set (filteredData clock node N data)
      = {r \<in> set data. node_name r = node \<and> now - N * 60 * 1000 \<le> timestamp r}"
    if "\<forall>i < length data. clock i = now"
  proof -
    have "set (filteredData clock node N data) = set_mset (mset (filteredData clock node N data))"
      by simp
    also have "\<dots> = set (spec_windowed_filter now node N data)"
      by (simp only: frozen [OF that] set_mset_mset)
    finally show ?thesis
      by (auto simp: spec_windowed_filter_def)
  qed
  from picked ordered frozen frozen_set show ?thesis
    by blast
qed

text \<open>
  The example of the specification under a clock that stands still: readings 20, 2 and 6
  minutes old and a reading of another location, with a window of 5 minutes.
\<close>

theorem windowed_filter_per_reading_clock_witness:
  "filteredData (\<lambda>i. 6000000) (Some ''Qwave'') 5
       [\<lparr>timestamp = 4800000, node_name = Some ''Qwave'', sensor_value = Some 700\<rparr>,
        \<lparr>timestamp = 5880000, node_name = Some ''Qwave'', sensor_value = Some 900\<rparr>,
        \<lparr>timestamp = 5640000, node_name = Some ''Qwave'', sensor_value = Some 800\<rparr>,
        \<lparr>timestamp = 5990000, node_name = Some ''Lab'', sensor_value = Some 100\<rparr>]
     = [\<lparr>timestamp = 5880000, node_name = Some ''Qwave'', sensor_value = Some 900\<rparr>]
   \<and> mset (filteredData (\<lambda>i. 6000000) (Some ''Qwave'') 5
       [\<lparr>timestamp = 4800000, node_name = Some ''Qwave'', sensor_value = Some 700\<rparr>,
        \<lparr>timestamp = 5880000, node_name = Some ''Qwave'', sensor_value = Some 900\<rparr>,
        \<lparr>timestamp = 5640000, node_name = Some ''Qwave'', sensor_value = Some 800\<rparr>,
        \<lparr>timestamp = 5990000, node_name = Some ''Lab'', sensor_value = Some 100\<rparr>])
     = mset (spec_windowed_filter 6000000 (Some ''Qwave'') 5
       [\<lparr>timestamp = 4800000, node_name = Some ''Qwave'', sensor_value = Some 700\<rparr>,
        \<lparr>timestamp = 5880000, node_name = Some ''Qwave'', sensor_value = Some 900\<rparr>,
        \<lparr>timestamp = 5640000, node_name = Some ''Qwave'', sensor_value = Some 800\<rparr>,
        \<lparr>timestamp = 5990000, node_name = Some ''Lab'', sensor_value = Some 100\<rparr>])"
proof -
  let ?data = "[\<lparr>timestamp = 4800000, node_name = Some ''Qwave'', sensor_value = Some 700\<rparr>,
        \<lparr>timestamp = 5880000, node_name = Some ''Qwave'', sensor_value = Some 900\<rparr>,
        \<lparr>timestamp = 5640000, node_name = Some ''Qwave'', sensor_value = Some 800\<rparr>,
        \<lparr>timestamp = 5990000, node_name = Some ''Lab'', sensor_value = Some 100\<rparr>]"
  have still: "\<forall>i < length ?data. (\<lambda>i. 6000000) i = (6000000 :: int)"
    by simp
  from windowed_filter_per_reading_clock [of "\<lambda>i. 6000000" "Some ''Qwave''" 5 ?data 6000000]
    still
  have "mset (filteredData (\<lambda>i. 6000000) (Some ''Qwave'') 5 ?data)
      = mset (spec_windowed_filter 6000000 (Some ''Qwave'') 5 ?data)"
    by blast
  then show ?thesis
    by (simp add: spec_windowed_filter_def)
qed

text \<open>
  C4, as the specification states it, fails. Two readings of the same location carry the
  same timestamp, exactly 5 minutes before the first read of the clock; the clock moves
  on by one millisecond before the second read. The code keeps the first reading and
  drops the second, while the readings at most 5 minutes older than \<open>now\<close> are both of
  them for the first clock value and none of them for the second.
\<close>

theorem clock_tick_splits_equal_readings:
  "filteredData (\<lambda>i. if i = 0 then 1300000 else 1300001) (Some ''Qwave'') 5
     [\<lparr>timestamp = 1000000, node_name = Some ''Qwave'', sensor_value = Some 1000\<rparr>,
      \<lparr>timestamp = 1000000, node_name = Some ''Qwave'', sensor_value = Some 2000\<rparr>]
   = [\<lparr>timestamp = 1000000, node_name = Some ''Qwave'', sensor_value = Some 1000\<rparr>]
   \<and> spec_windowed_filter 1300000 (Some ''Qwave'') 5
     [\<lparr>timestamp = 1000000, node_name = Some ''Qwave'', sensor_value = Some 1000\<rparr>,
      \<lparr>timestamp = 1000000, node_name = Some ''Qwave'', sensor_value = Some 2000\<rparr>]
   = [\<lparr>timestamp = 1000000, node_name = Some ''Qwave'', sensor_value = Some 1000\<rparr>,
      \<lparr>timestamp = 1000000, node_name = Some ''Qwave'', sensor_value = Some 2000\<rparr>]
   \<and> spec_windowed_filter 1300001 (Some ''Qwave'') 5
     [\<lparr>timestamp = 1000000, node_name = Some ''Qwave'', sensor_value = Some 1000\<rparr>,
      \<lparr>timestamp = 1000000, node_name = Some ''Qwave'', sensor_value = Some 2000\<rparr>]
   = []"
  by (simp add: filteredData_def spec_windowed_filter_def)

lemma latestValue_case:
  "latestValue fd =
     (case fd of [] \<Rightarrow> JNumber (Finite 0) | r # rs \<Rightarrow> js_value_of (item_sensor_value r))"
  by (cases fd) (simp_all add: latestValue_def)


text \<open>
  C5. The latest value is the \<^verbatim>\<open>sensor_value\<close> of the first element of the windowed,
  descending list when that list is not empty, and the number 0 when it is empty. On an
  empty list of readings the four operations give the empty window, the latest value 0
  and two empty series. The four operations are total: none of them has a failing branch.
\<close>

theorem latest_value_selection:
  "latestValue (filteredData clock node N data)
     = (case filteredData clock node N data of
          [] \<Rightarrow> JNumber (Finite 0)
        | r # rs \<Rightarrow> js_value_of (item_sensor_value r))
   \<and> filteredData clock node N [] = []
   \<and> latestValue (filteredData clock node N []) = JNumber (Finite 0)
   \<and> calculateDailyAverage node [] = []
   \<and> calculateDailyMinMax node [] = []"
  by (simp add: latestValue_case [of "filteredData clock node N data"])
     (simp add: latestValue_def filteredData_def calculateDailyAverage_def
        calculateDailyMinMax_def)

text \<open>
  C6. A purge run that reaches the store removes exactly the rows of \<^verbatim>\<open>sensor_data\<close>
  whose timestamp is more than 24 hours before \<open>now\<close>; every other row stays as it is, in
  place, and the accounts are not touched. The scheduler starts the run in the minutes
  whose wall-clock time is 00:00, once per calendar day.
\<close>

theorem retention_purge:
  assumes "db_up"
  shows "sensor_data (deleteOldSensorData db_up now db)
       = filter (\<lambda>r. now - 24 * 60 * 60 * 1000 \<le> col_timestamp r) (sensor_data db)
     \<and> users (deleteOldSensorData db_up now db) = users db
     \<and> cleanup_tick t db_up now db =
         (if clock_hour t = 0 \<and> clock_minute t = 0 then deleteOldSensorData db_up now db else db)"
  using assms
  by (simp add: deleteOldSensorData_def cleanup_tick_def cron_matches_def
        sensor_cleanup_schedule_def not_less)


text \<open>
  The example of the specification: rows recorded 25 hours and 1 hour before the run.
\<close>

theorem retention_purge_witness:
  "True \<and> sensor_data (deleteOldSensorData True 100000000
       \<lparr>users = [38],
        sensor_data =
          [\<lparr>col_id = 0, col_user_id = 38, col_esp32_serial = Some ''1'',
            col_node_name = Some ''Qwave'', col_sensor_type = Some ''WaterLevel'',
            col_sensor_value = Some 10, col_timestamp = 100000000 - 25 * 3600000\<rparr>,
           \<lparr>col_id = 1, col_user_id = 38, col_esp32_serial = Some ''1'',
            col_node_name = Some ''Qwave'', col_sensor_type = Some ''WaterLevel'',
            col_sensor_value = Some 20, col_timestamp = 100000000 - 1 * 3600000\<rparr>],
        auto_increment = 2\<rparr>)
     = [\<lparr>col_id = 1, col_user_id = 38, col_esp32_serial = Some ''1'',
         col_node_name = Some ''Qwave'', col_sensor_type = Some ''WaterLevel'',
         col_sensor_value = Some 20, col_timestamp = 100000000 - 1 * 3600000\<rparr>]"
  using retention_purge [of True 100000000
       "\<lparr>users = [38],
        sensor_data =
          [\<lparr>col_id = 0, col_user_id = 38, col_esp32_serial = Some ''1'',
            col_node_name = Some ''Qwave'', col_sensor_type = Some ''WaterLevel'',
            col_sensor_value = Some 10, col_timestamp = 100000000 - 25 * 3600000\<rparr>,
           \<lparr>col_id = 1, col_user_id = 38, col_esp32_serial = Some ''1'',
            col_node_name = Some ''Qwave'', col_sensor_type = Some ''WaterLevel'',
            col_sensor_value = Some 20, col_timestamp = 100000000 - 1 * 3600000\<rparr>],
        auto_increment = 2\<rparr>"]
  by simp

subsection \<open>The daily series\<close>

text \<open>The dates, strings and numbers of the example below.\<close>

lemma round_double_10: "round_double 10 = Finite 10"
  by code_simp

lemma round_double_20: "round_double 20 = Finite 20"
  by code_simp

lemma round_double_30: "round_double 30 = Finite 30"
  by code_simp

lemma example_dates:
  "toLocaleDateString 0 = ''1/1/1970''"
  "toLocaleDateString 60000000 = ''1/1/1970''"
  "toLocaleDateString 70000000 = ''1/2/1970''"
  by code_simp+

lemma example_strings:
  "decimal_string 1000 = ''10.00''"
  "decimal_string 2000 = ''20.00''"
  "decimal_string 3000 = ''30.00''"
  by code_simp+

lemma example_numbers:
  "StringToNumber ''010.0020.00'' = NaN"
  "StringToNumber ''030.00'' = Finite 30"
  "StringToNumber ''10.00'' = Finite 10"
  "StringToNumber ''20.00'' = Finite 20"
  by (simp_all add: StringToNumber_def is_digit_def digits_value_def digit_value_def Let_def
        round_double_10 round_double_20 round_double_30)

text \<open>
  C3 fails on the rows the dashboard receives. The example of the specification, 10 and
  20 on one day in Bangkok and 30 on the next, arrives as the strings \<^verbatim>\<open>"10.00"\<close>,
  \<^verbatim>\<open>"20.00"\<close> and \<^verbatim>\<open>"30.00"\<close>. \<^verbatim>\<open>total += item.sensor_value\<close> concatenates them:
  the total of the first day is \<^verbatim>\<open>"010.0020.00"\<close> and its average is \<^verbatim>\<open>NaN\<close>, not the
  mean 15. The second day has one reading and the average 30. The minimum and maximum
  of the first day are the numbers 10 and 20; those of the second day are the string
  \<^verbatim>\<open>"30.00"\<close> as it came. The second and the third reading lie on the same UTC day and
  on different days in Bangkok.
\<close>

theorem daily_average_concatenates:
  "calculateDailyAverage (Some ''Qwave'')
     [\<lparr>timestamp = 0, node_name = Some ''Qwave'', sensor_value = Some 1000\<rparr>,
      \<lparr>timestamp = 60000000, node_name = Some ''Qwave'', sensor_value = Some 2000\<rparr>,
      \<lparr>timestamp = 70000000, node_name = Some ''Qwave'', sensor_value = Some 3000\<rparr>]
   = [\<lparr>avg_date = ''1/1/1970'', average = NaN\<rparr>,
      \<lparr>avg_date = ''1/2/1970'', average = Finite 30\<rparr>]
   \<and> calculateDailyMinMax (Some ''Qwave'')
     [\<lparr>timestamp = 0, node_name = Some ''Qwave'', sensor_value = Some 1000\<rparr>,
      \<lparr>timestamp = 60000000, node_name = Some ''Qwave'', sensor_value = Some 2000\<rparr>,
      \<lparr>timestamp = 70000000, node_name = Some ''Qwave'', sensor_value = Some 3000\<rparr>]
   = [\<lparr>mm_date = ''1/1/1970'', mm_min = JNumber (Finite 10), mm_max = JNumber (Finite 20)\<rparr>,
      \<lparr>mm_date = ''1/2/1970'', mm_min = JString ''30.00'', mm_max = JString ''30.00''\<rparr>]"
  by (simp add: calculateDailyAverage_def calculateDailyMinMax_def average_step_def
        minmax_step_def item_sensor_value_def Math_min_def Math_max_def Let_def
        example_dates example_strings example_numbers round_double_30)


subsection \<open>Ingestion and query\<close>

text \<open>
  The two outcomes of \<^verbatim>\<open>POST /auth/api/sensor-data\<close>: the row is appended and the answer
  is 201 when the store is reachable and accepts the owner; otherwise the answer is 500
  and the store is as before.
\<close>

lemma post_sensor_data_cases:
  "post_sensor_data db_up now db req =
     (if db_up \<and> (\<exists>u. body_userId (body req) = Some u \<and> u \<in> set (users db))
      then (Message 201 ''Sensor data saved successfully'',
            db\<lparr>sensor_data := sensor_data db @
                   [\<lparr>col_id = auto_increment db, col_user_id = the (body_userId (body req)),
                     col_esp32_serial = body_esp32Serial (body req),
                     col_node_name = body_nodeName (body req),
                     col_sensor_type = body_sensorType (body req),
                     col_sensor_value = body_value (body req),
                     col_timestamp = now\<rparr>],
                auto_increment := auto_increment db + 1\<rparr>)
      else (Message 500 ''Error saving sensor data'', db))"
  by (auto simp: post_sensor_data_def insert_sensor_data_def split: option.splits)

text \<open>
  C7, as the code has it. The route checks no field for presence. A request without owner
  reference is refused by the store: it is answered with the server error 500 and nothing
  is inserted. A missing device serial, location label, sensor kind or value does not
  cause a rejection: whenever a request is answered 201, the same request with any of
  these four fields left out is answered 201 as well, and its row is appended with
  \<^verbatim>\<open>NULL\<close> in their place. No partial row is stored: a request leaves the store as it
  was or appends exactly one row that holds its five fields as they came.
\<close>

theorem ingestion_checks_no_field:
  "(body_userId (body req) = None \<longrightarrow>
      status (fst (post_sensor_data db_up now db req)) = 500
      \<and> snd (post_sensor_data db_up now db req) = db)
   \<and> (status (fst (post_sensor_data db_up now db req)) = 201 \<longrightarrow>
        (\<exists>u. body_userId (body req) = Some u
           \<and> (\<forall>serial label kind val.
                 (serial = None \<or> serial = body_esp32Serial (body req))
                 \<and> (label = None \<or> label = body_nodeName (body req))
                 \<and> (kind = None \<or> kind = body_sensorType (body req))
                 \<and> (val = None \<or> val = body_value (body req)) \<longrightarrow>
                 post_sensor_data db_up now db
                   (req\<lparr>body := (body req)\<lparr>body_esp32Serial := serial, body_nodeName := label,
                                            body_sensorType := kind, body_value := val\<rparr>\<rparr>)
                 = (Message 201 ''Sensor data saved successfully'',
                    db\<lparr>sensor_data := sensor_data db @
                           [\<lparr>col_id = auto_increment db, col_user_id = u,
                             col_esp32_serial = serial, col_node_name = label,
                             col_sensor_type = kind, col_sensor_value = val,
                             col_timestamp = now\<rparr>],
                        auto_increment := auto_increment db + 1\<rparr>))))
   \<and> (snd (post_sensor_data db_up now db req) = db
        \<or> users (snd (post_sensor_data db_up now db req)) = users db
          \<and> (\<exists>r. sensor_data (snd (post_sensor_data db_up now db req)) = sensor_data db @ [r]
                \<and> Some (col_user_id r) = body_userId (body req)
                \<and> col_esp32_serial r = body_esp32Serial (body req)
                \<and> col_node_name r = body_nodeName (body req)
                \<and> col_sensor_type r = body_sensorType (body req)
                \<and> col_sensor_value r = body_value (body req)
                \<and> col_timestamp r = now))"
proof (intro conjI impI)
  assume "body_userId (body req) = None"
  then show "status (fst (post_sensor_data db_up now db req)) = 500"
    and "snd (post_sensor_data db_up now db req) = db"
    by (simp_all add: post_sensor_data_cases)
next
  assume "status (fst (post_sensor_data db_up now db req)) = 201"
  then have up: db_up and owner: "\<exists>u. body_userId (body req) = Some u \<and> u \<in> set (users db)"
    by (simp_all add: post_sensor_data_cases split: if_splits)
  from owner obtain u where u: "body_userId (body req) = Some u" "u \<in> set (users db)"
    by blast
  have "post_sensor_data db_up now db
          (req\<lparr>body := (body req)\<lparr>body_esp32Serial := serial, body_nodeName := label,
                                   body_sensorType := kind, body_value := val\<rparr>\<rparr>)
        = (Message 201 ''Sensor data saved successfully'',
           db\<lparr>sensor_data := sensor_data db @
                  [\<lparr>col_id = auto_increment db, col_user_id = u,
                    col_esp32_serial = serial, col_node_name = label,
                    col_sensor_type = kind, col_sensor_value = val,
                    col_timestamp = now\<rparr>],
               auto_increment := auto_increment db + 1\<rparr>)"
    for serial label kind val
    using up u by (simp add: post_sensor_data_cases)
  with u(1) show "\<exists>u. body_userId (body req) = Some u
      \<and> (\<forall>serial label kind val.
            (serial = None \<or> serial = body_esp32Serial (body req))
            \<and> (label = None \<or> label = body_nodeName (body req))
            \<and> (kind = None \<or> kind = body_sensorType (body req))
            \<and> (val = None \<or> val = body_value (body req)) \<longrightarrow>
            post_sensor_data db_up now db
              (req\<lparr>body := (body req)\<lparr>body_esp32Serial := serial, body_nodeName := label,
                                       body_sensorType := kind, body_value := val\<rparr>\<rparr>)
            = (Message 201 ''Sensor data saved successfully'',
               db\<lparr>sensor_data := sensor_data db @
                      [\<lparr>col_id = auto_increment db, col_user_id = u,
                        col_esp32_serial = serial, col_node_name = label,
                        col_sensor_type = kind, col_sensor_value = val,
                        col_timestamp = now\<rparr>],
                   auto_increment := auto_increment db + 1\<rparr>))"
    by blast
next
  show "snd (post_sensor_data db_up now db req) = db
      \<or> users (snd (post_sensor_data db_up now db req)) = users db
        \<and> (\<exists>r. sensor_data (snd (post_sensor_data db_up now db req)) = sensor_data db @ [r]
              \<and> Some (col_user_id r) = body_userId (body req)
              \<and> col_esp32_serial r = body_esp32Serial (body req)
              \<and> col_node_name r = body_nodeName (body req)
              \<and> col_sensor_type r = body_sensorType (body req)
              \<and> col_sensor_value r = body_value (body req)
              \<and> col_timestamp r = now)"
    by (auto simp: post_sensor_data_cases)
qed

text \<open>
  A complete request for an existing owner is answered 201, and so is the same request
  without its location label.
\<close>

theorem ingestion_checks_no_field_witness:
  "status (fst (post_sensor_data True 1000
       \<lparr>users = [38], sensor_data = [], auto_increment = 0\<rparr>
       \<lparr>authorization = None,
        body = \<lparr>body_userId = Some 38, body_esp32Serial = Some ''1'',
                body_nodeName = Some ''Qwave'', body_sensorType = Some ''WaterLevel'',
                body_value = Some 1024\<rparr>\<rparr>)) = 201
   \<and> post_sensor_data True 1000
       \<lparr>users = [38], sensor_data = [], auto_increment = 0\<rparr>
       \<lparr>authorization = None,
        body = \<lparr>body_userId = Some 38, body_esp32Serial = Some ''1'', body_nodeName = None,
                body_sensorType = Some ''WaterLevel'', body_value = Some 1024\<rparr>\<rparr>
     = (Message 201 ''Sensor data saved successfully'',
        \<lparr>users = [38],
         sensor_data = [\<lparr>col_id = 0, col_user_id = 38, col_esp32_serial = Some ''1'',
                         col_node_name = None, col_sensor_type = Some ''WaterLevel'',
                         col_sensor_value = Some 1024, col_timestamp = 1000\<rparr>],
         auto_increment = 1\<rparr>)"
proof -
  let ?db = "\<lparr>users = [38], sensor_data = [], auto_increment = 0\<rparr>"
  let ?req = "\<lparr>authorization = None,
        body = \<lparr>body_userId = Some 38, body_esp32Serial = Some ''1'',
                body_nodeName = Some ''Qwave'', body_sensorType = Some ''WaterLevel'',
                body_value = Some 1024\<rparr>\<rparr>"
  have accepted: "status (fst (post_sensor_data True 1000 ?db ?req)) = 201"
    by (simp add: post_sensor_data_def insert_sensor_data_def)
  from ingestion_checks_no_field [of ?req True 1000 ?db] accepted
  have "post_sensor_data True 1000 ?db
      (?req\<lparr>body := (body ?req)\<lparr>body_esp32Serial := Some ''1'', body_nodeName := None,
                                 body_sensorType := Some ''WaterLevel'',
                                 body_value := Some 1024\<rparr>\<rparr>)
    = (Message 201 ''Sensor data saved successfully'',
       ?db\<lparr>sensor_data := sensor_data ?db @
               [\<lparr>col_id = auto_increment ?db, col_user_id = 38,
                 col_esp32_serial = Some ''1'', col_node_name = None,
                 col_sensor_type = Some ''WaterLevel'', col_sensor_value = Some 1024,
                 col_timestamp = 1000\<rparr>],
            auto_increment := auto_increment ?db + 1\<rparr>)"
    by auto
  with accepted show ?thesis
    by simp
qed

text \<open>
  C7, as the specification states it, fails. A request whose location label is missing is
  answered 201 and its row is stored with \<^verbatim>\<open>NULL\<close> as label; a request whose owner
  reference is missing is refused by the store and answered 500, a server error and not a
  client error.
\<close>

theorem missing_field_not_rejected:
  "body_nodeName (body \<lparr>authorization = None,
        body = \<lparr>body_userId = Some 38, body_esp32Serial = Some ''1'', body_nodeName = None,
                body_sensorType = Some ''WaterLevel'', body_value = Some 1024\<rparr>\<rparr>) = None
   \<and> post_sensor_data True 1000
       \<lparr>users = [38], sensor_data = [], auto_increment = 0\<rparr>
       \<lparr>authorization = None,
        body = \<lparr>body_userId = Some 38, body_esp32Serial = Some ''1'', body_nodeName = None,
                body_sensorType = Some ''WaterLevel'', body_value = Some 1024\<rparr>\<rparr>
     = (Message 201 ''Sensor data saved successfully'',
        \<lparr>users = [38],
         sensor_data = [\<lparr>col_id = 0, col_user_id = 38, col_esp32_serial = Some ''1'',
                         col_node_name = None, col_sensor_type = Some ''WaterLevel'',
                         col_sensor_value = Some 1024, col_timestamp = 1000\<rparr>],
         auto_increment = 1\<rparr>)
   \<and> post_sensor_data True 1000
       \<lparr>users = [38], sensor_data = [], auto_increment = 0\<rparr>
       \<lparr>authorization = None,
        body = \<lparr>body_userId = None, body_esp32Serial = Some ''1'', body_nodeName = Some ''Qwave'',
                body_sensorType = Some ''WaterLevel'', body_value = Some 1024\<rparr>\<rparr>
     = (Message 500 ''Error saving sensor data'',
        \<lparr>users = [38], sensor_data = [], auto_increment = 0\<rparr>)"
  by (simp add: post_sensor_data_def insert_sensor_data_def)

text \<open>
  C8. Every successful POST (status 201) makes the table one row longer. When the same
  request is posted again and the store is reachable, it succeeds again, and the table
  ends with two rows that carry the same payload and differ in their id: nothing is
  deduplicated.
\<close>

theorem ingestion_not_idempotent:
  assumes "status (fst (post_sensor_data db_up now1 db req)) = 201"
  shows "length (sensor_data (snd (post_sensor_data db_up now1 db req)))
       = length (sensor_data db) + 1
     \<and> status (fst (post_sensor_data True now2 (snd (post_sensor_data db_up now1 db req)) req))
       = 201
     \<and> length (sensor_data
         (snd (post_sensor_data True now2 (snd (post_sensor_data db_up now1 db req)) req)))
       = length (sensor_data db) + 2
     \<and> (\<exists>r1 r2.
          sensor_data
            (snd (post_sensor_data True now2 (snd (post_sensor_data db_up now1 db req)) req))
            = sensor_data db @ [r1, r2]
          \<and> r1 \<noteq> r2 \<and> col_id r1 \<noteq> col_id r2
          \<and> col_user_id r1 = col_user_id r2
          \<and> col_esp32_serial r1 = col_esp32_serial r2
          \<and> col_node_name r1 = col_node_name r2
          \<and> col_sensor_type r1 = col_sensor_type r2
          \<and> col_sensor_value r1 = col_sensor_value r2)"
proof -
  from assms have ok: "db_up \<and> (\<exists>u. body_userId (body req) = Some u \<and> u \<in> set (users db))"
    by (simp add: post_sensor_data_cases split: if_splits)
  then show ?thesis
    by (auto simp: post_sensor_data_cases)
qed


theorem ingestion_not_idempotent_witness:
  "status (fst (post_sensor_data True 1000
       \<lparr>users = [38], sensor_data = [], auto_increment = 0\<rparr>
       \<lparr>authorization = None,
        body = \<lparr>body_userId = Some 38, body_esp32Serial = Some ''1'',
                body_nodeName = Some ''Qwave'', body_sensorType = Some ''WaterLevel'',
                body_value = Some 1024\<rparr>\<rparr>)) = 201
   \<and> length (sensor_data (snd (post_sensor_data True 1000
       (snd (post_sensor_data True 1000
          \<lparr>users = [38], sensor_data = [], auto_increment = 0\<rparr>
          \<lparr>authorization = None,
           body = \<lparr>body_userId = Some 38, body_esp32Serial = Some ''1'',
                   body_nodeName = Some ''Qwave'', body_sensorType = Some ''WaterLevel'',
                   body_value = Some 1024\<rparr>\<rparr>))
       \<lparr>authorization = None,
        body = \<lparr>body_userId = Some 38, body_esp32Serial = Some ''1'',
                body_nodeName = Some ''Qwave'', body_sensorType = Some ''WaterLevel'',
                body_value = Some 1024\<rparr>\<rparr>))) = 2"
proof -
  have h: "status (fst (post_sensor_data True 1000
       \<lparr>users = [38], sensor_data = [], auto_increment = 0\<rparr>
       \<lparr>authorization = None,
        body = \<lparr>body_userId = Some 38, body_esp32Serial = Some ''1'',
                body_nodeName = Some ''Qwave'', body_sensorType = Some ''WaterLevel'',
                body_value = Some 1024\<rparr>\<rparr>)) = 201"
    by (simp add: post_sensor_data_def insert_sensor_data_def)
  from ingestion_not_idempotent [OF h, of 1000] h show ?thesis
    by simp
qed

text \<open>
  C9. For every store and every query whose credential resolves to the owner
  \<open>jwt_id user\<close>: no row of another owner is in the answer, whatever happens; and when
  the store is reachable the answer has status 200 and holds exactly the rows of that
  owner, each once.
\<close>

theorem read_access_owner_scoped:
  assumes "authenticateToken jwt_verify req = Inr user"
  shows "set (rows_of (get_sensor_data jwt_verify db_up db req))
       \<subseteq> {r \<in> set (sensor_data db). col_user_id r = jwt_id user}
     \<and> (db_up \<longrightarrow>
          status (get_sensor_data jwt_verify db_up db req) = 200
          \<and> mset (rows_of (get_sensor_data jwt_verify db_up db req))
            = mset (filter (\<lambda>r. col_user_id r = jwt_id user) (sensor_data db))
          \<and> set (rows_of (get_sensor_data jwt_verify db_up db req))
            = {r \<in> set (sensor_data db). col_user_id r = jwt_id user})"
proof (cases db_up)
  case True
  with assms have "get_sensor_data jwt_verify db_up db req =
      Rows 200 (sort_key (\<lambda>r. - col_timestamp r)
                  (filter (\<lambda>r. col_user_id r = jwt_id user) (sensor_data db)))"
    by (simp add: get_sensor_data_def)
  then show ?thesis
    by auto
next
  case False
  with assms have "get_sensor_data jwt_verify db_up db req
      = Message 500 ''Error fetching sensor data''"
    by (simp add: get_sensor_data_def)
  with False show ?thesis
    by simp
qed

theorem read_access_owner_scoped_witness:
  "authenticateToken
     (\<lambda>t. if t = ''tok38'' then Some \<lparr>jwt_id = 38, jwt_email = ''a@wls''\<rparr> else None)
     \<lparr>authorization = Some ''Bearer tok38'',
      body = \<lparr>body_userId = None, body_esp32Serial = None, body_nodeName = None,
              body_sensorType = None, body_value = None\<rparr>\<rparr>
     = Inr \<lparr>jwt_id = 38, jwt_email = ''a@wls''\<rparr>
   \<and> rows_of (get_sensor_data
       (\<lambda>t. if t = ''tok38'' then Some \<lparr>jwt_id = 38, jwt_email = ''a@wls''\<rparr> else None)
       True
       \<lparr>users = [7, 38],
        sensor_data =
          [\<lparr>col_id = 0, col_user_id = 7, col_esp32_serial = Some ''2'',
            col_node_name = Some ''Lab'', col_sensor_type = Some ''WaterLevel'',
            col_sensor_value = Some 5, col_timestamp = 10\<rparr>,
           \<lparr>col_id = 1, col_user_id = 38, col_esp32_serial = Some ''1'',
            col_node_name = Some ''Qwave'', col_sensor_type = Some ''WaterLevel'',
            col_sensor_value = Some 1024, col_timestamp = 20\<rparr>],
        auto_increment = 2\<rparr>
       \<lparr>authorization = Some ''Bearer tok38'',
        body = \<lparr>body_userId = None, body_esp32Serial = None, body_nodeName = None,
                body_sensorType = None, body_value = None\<rparr>\<rparr>)
     = [\<lparr>col_id = 1, col_user_id = 38, col_esp32_serial = Some ''1'',
         col_node_name = Some ''Qwave'', col_sensor_type = Some ''WaterLevel'',
         col_sensor_value = Some 1024, col_timestamp = 20\<rparr>]"
proof -
  have h: "authenticateToken
     (\<lambda>t. if t = ''tok38'' then Some \<lparr>jwt_id = 38, jwt_email = ''a@wls''\<rparr> else None)
     \<lparr>authorization = Some ''Bearer tok38'',
      body = \<lparr>body_userId = None, body_esp32Serial = None, body_nodeName = None,
              body_sensorType = None, body_value = None\<rparr>\<rparr>
     = Inr \<lparr>jwt_id = 38, jwt_email = ''a@wls''\<rparr>"
    by (simp add: authenticateToken_def)
  from read_access_owner_scoped [OF h, of True
       "\<lparr>users = [7, 38],
        sensor_data =
          [\<lparr>col_id = 0, col_user_id = 7, col_esp32_serial = Some ''2'',
            col_node_name = Some ''Lab'', col_sensor_type = Some ''WaterLevel'',
            col_sensor_value = Some 5, col_timestamp = 10\<rparr>,
           \<lparr>col_id = 1, col_user_id = 38, col_esp32_serial = Some ''1'',
            col_node_name = Some ''Qwave'', col_sensor_type = Some ''WaterLevel'',
            col_sensor_value = Some 1024, col_timestamp = 20\<rparr>],
        auto_increment = 2\<rparr>"] h
  show ?thesis
    by (simp add: get_sensor_data_def)
qed

text \<open>
  C10. The ingestion route never looks at the \<^verbatim>\<open>Authorization\<close> header: replacing it by
  anything, or leaving it out, changes nothing. A request without any credential that
  names an existing account as owner is answered 201, and the owner's next
  credential-gated query returns its former rows and the new one.
\<close>

theorem ingestion_needs_no_credential:
  assumes "body_userId (body req) = Some owner" and "owner \<in> set (users db)"
    and "authenticateToken jwt_verify viewer = Inr user" and "jwt_id user = owner"
  shows "(\<forall>h. post_sensor_data db_up now db (req\<lparr>authorization := h\<rparr>)
            = post_sensor_data db_up now db req)
     \<and> status (fst (post_sensor_data True now db (req\<lparr>authorization := None\<rparr>))) = 201
     \<and> (\<exists>r. col_user_id r = owner
            \<and> col_esp32_serial r = body_esp32Serial (body req)
            \<and> col_node_name r = body_nodeName (body req)
            \<and> col_sensor_type r = body_sensorType (body req)
            \<and> col_sensor_value r = body_value (body req)
            \<and> col_timestamp r = now
            \<and> mset (rows_of (get_sensor_data jwt_verify True
                  (snd (post_sensor_data True now db (req\<lparr>authorization := None\<rparr>))) viewer))
              = mset (rows_of (get_sensor_data jwt_verify True db viewer)) + {#r#})"
proof -
  let ?r = "\<lparr>col_id = auto_increment db, col_user_id = owner,
            col_esp32_serial = body_esp32Serial (body req),
            col_node_name = body_nodeName (body req),
            col_sensor_type = body_sensorType (body req),
            col_sensor_value = body_value (body req), col_timestamp = now\<rparr>"
  have ignored: "post_sensor_data db_up now db (req\<lparr>authorization := h\<rparr>)
      = post_sensor_data db_up now db req" for h
    by (simp add: post_sensor_data_def)
  have stored: "post_sensor_data True now db (req\<lparr>authorization := None\<rparr>)
      = (Message 201 ''Sensor data saved successfully'',
         db\<lparr>sensor_data := sensor_data db @ [?r],
            auto_increment := auto_increment db + 1\<rparr>)"
    using assms(1,2) by (simp add: post_sensor_data_cases)
  have seen: "mset (rows_of (get_sensor_data jwt_verify True
        (db\<lparr>sensor_data := sensor_data db @ [?r],
            auto_increment := auto_increment db + 1\<rparr>) viewer))
      = mset (rows_of (get_sensor_data jwt_verify True db viewer)) + {#?r#}"
    using assms(3,4) by (simp add: get_sensor_data_def)
  show ?thesis
    using ignored stored seen by (intro conjI allI exI [of _ ?r]) simp_all
qed


theorem ingestion_needs_no_credential_witness:
  "authorization \<lparr>authorization = None,
        body = \<lparr>body_userId = Some 38, body_esp32Serial = Some ''9'',
                body_nodeName = Some ''Qwave'', body_sensorType = Some ''WaterLevel'',
                body_value = Some 1024\<rparr>\<rparr> = None
   \<and> rows_of (get_sensor_data
       (\<lambda>t. if t = ''tok38'' then Some \<lparr>jwt_id = 38, jwt_email = ''a@wls''\<rparr> else None)
       True
       (snd (post_sensor_data True 1000
          \<lparr>users = [38], sensor_data = [], auto_increment = 0\<rparr>
          \<lparr>authorization = None,
           body = \<lparr>body_userId = Some 38, body_esp32Serial = Some ''9'',
                   body_nodeName = Some ''Qwave'', body_sensorType = Some ''WaterLevel'',
                   body_value = Some 1024\<rparr>\<rparr>))
       \<lparr>authorization = Some ''Bearer tok38'',
        body = \<lparr>body_userId = None, body_esp32Serial = None, body_nodeName = None,
                body_sensorType = None, body_value = None\<rparr>\<rparr>)
     = [\<lparr>col_id = 0, col_user_id = 38, col_esp32_serial = Some ''9'',
         col_node_name = Some ''Qwave'', col_sensor_type = Some ''WaterLevel'',
         col_sensor_value = Some 1024, col_timestamp = 1000\<rparr>]"
proof -
  have h: "body_userId (body \<lparr>authorization = None,
        body = \<lparr>body_userId = Some 38, body_esp32Serial = Some ''9'',
                body_nodeName = Some ''Qwave'', body_sensorType = Some ''WaterLevel'',
                body_value = Some 1024\<rparr>\<rparr>) = Some 38"
    "38 \<in> set (users \<lparr>users = [38], sensor_data = [], auto_increment = 0\<rparr>)"
    "authenticateToken
       (\<lambda>t. if t = ''tok38'' then Some \<lparr>jwt_id = 38, jwt_email = ''a@wls''\<rparr> else None)
       \<lparr>authorization = Some ''Bearer tok38'',
        body = \<lparr>body_userId = None, body_esp32Serial = None, body_nodeName = None,
                body_sensorType = None, body_value = None\<rparr>\<rparr>
     = Inr \<lparr>jwt_id = 38, jwt_email = ''a@wls''\<rparr>"
    "jwt_id \<lparr>jwt_id = 38, jwt_email = ''a@wls''\<rparr> = 38"
    by (simp_all add: authenticateToken_def)
  from ingestion_needs_no_credential [OF h, of True 1000] h show ?thesis
    by (simp add: post_sensor_data_def insert_sensor_data_def get_sensor_data_def)
qed

end
